theory Spec2Isabelle
  imports Complex_Main
begin

section \<open>JavaScript values\<close>

text \<open>
  A JavaScript \<^verbatim>\<open>number\<close> is a finite value, one of the two infinities, or NaN.
  Only comparisons are made on numbers by the code below, so finite values are
  taken as reals (every double is one). A comparison with NaN is false.
\<close>

datatype jsnum = NaN | NegInf | Fin real | PosInf

fun js_le :: "jsnum \<Rightarrow> jsnum \<Rightarrow> bool" where
  "js_le NaN _ = False"
| "js_le _ NaN = False"
| "js_le NegInf _ = True"
| "js_le _ PosInf = True"
| "js_le (Fin a) (Fin b) = (a \<le> b)"
| "js_le PosInf _ = False"
| "js_le (Fin a) NegInf = False"

fun js_lt :: "jsnum \<Rightarrow> jsnum \<Rightarrow> bool" where
  "js_lt NaN _ = False"
| "js_lt _ NaN = False"
| "js_lt PosInf _ = False"
| "js_lt _ NegInf = False"
| "js_lt (Fin a) (Fin b) = (a < b)"
| "js_lt NegInf _ = True"
| "js_lt (Fin a) PosInf = True"

section \<open>Stock logic\<close>

text \<open>
  \<^verbatim>\<open>
  const getStockStatus = (quantity: number): Medicine["stockStatus"] => {
    if (quantity <= 0) return "Out of Stock";
    if (quantity <= 50) return "Low Stock";
    return "In Stock";
  };
  \<close>
\<close>

definition getStockStatus :: "jsnum \<Rightarrow> string" where
  "getStockStatus quantity =
     (if js_le quantity (Fin 0) then ''Out of Stock''
      else if js_le quantity (Fin 50) then ''Low Stock''
      else ''In Stock'')"

text \<open>The page component has its own copy, \<^verbatim>\<open>getUIStockStatus\<close>, with the same body.\<close>

definition getUIStockStatus :: "jsnum \<Rightarrow> string" where
  "getUIStockStatus qty =
     (if js_le qty (Fin 0) then ''Out of Stock''
      else if js_le qty (Fin 50) then ''Low Stock''
      else ''In Stock'')"


section \<open>Records of the store\<close>

text \<open>
  Values held in the fields of a record. A string is the list of its characters; a nested
  object literal is the list of its properties in source order.
\<close>

datatype jsval =
    Undefined
  | Null
  | JBool bool
  | JNum jsnum
  | JStr string
  | JArr "jsval list"
  | JObj "(string \<times> jsval) list"

text \<open>
  A \<^verbatim>\<open>Medicine\<close>, a \<^verbatim>\<open>NewMedicine\<close> payload and an \<^verbatim>\<open>UpdateMedicine\<close> patch are
  JavaScript objects: finite maps from property names to values. Reading a property
  that is not there gives \<^verbatim>\<open>undefined\<close>; the spread \<^verbatim>\<open>{...m, ...u}\<close> is \<open>m ++ u\<close>.
\<close>

type_synonym medicine = "string \<rightharpoonup> jsval"

definition field :: "medicine \<Rightarrow> string \<Rightarrow> jsval" where
  "field m k = (case m k of None \<Rightarrow> Undefined | Some v \<Rightarrow> v)"

fun truthy :: "jsval \<Rightarrow> bool" where
  "truthy Undefined = False"
| "truthy Null = False"
| "truthy (JBool b) = b"
| "truthy (JNum n) = (n \<noteq> NaN \<and> n \<noteq> Fin 0)"
| "truthy (JStr s) = (s \<noteq> [])"
| "truthy (JArr xs) = True"
| "truthy (JObj ps) = True"

datatype js_error = Error string | TypeError string

text \<open>
  The object built by \<^verbatim>\<open>getMedicineOnChain\<close> from the contract's answer, and the seven
  arguments of \<^verbatim>\<open>addMedicineOnChain\<close>, which are the same fields without \<^verbatim>\<open>exists\<close>.
\<close>

record chain_fields =
  name :: jsval
  batch :: jsval
  manufacturer :: jsval
  price :: jsnum
  stock :: jsnum
  mfgDate :: jsnum
  expDate :: jsnum

record chain_data = chain_fields +
  exists :: bool

text \<open>Calls that leave the process, in the order they are made.\<close>

datatype event =
    ListRecords
  | ContractRead jsval "js_error + chain_data"
  | ContractWrite chain_fields
  | CreateRecord medicine
  | UpdateRecord string medicine

text \<open>
  What the store does not define: the runtime's conversions and clock, the document
  store client (\<^verbatim>\<open>@/lib/firebase/medicines\<close>), the wallet and the contract. Each remote
  call takes the state \<open>'w\<close> of the outside world and returns its answer, a rejection
  being \<open>Inl\<close>, with the world after the call.
  \<^item> \<open>ToNumber\<close>: \<^verbatim>\<open>Number(v)\<close> on a string, an array or an object;
  \<^item> \<open>epochSeconds\<close>: \<^verbatim>\<open>Math.floor(new Date(v).getTime() / 1000)\<close>;
  \<^item> \<open>toISOString_now\<close>: \<^verbatim>\<open>new Date().toISOString()\<close>;
  \<^item> \<open>contract_getMedicine\<close>: the body of the \<^verbatim>\<open>try\<close> of \<^verbatim>\<open>getMedicineOnChain\<close>, the
    call \<^verbatim>\<open>contract.getMedicine(batch)\<close> and the conversion of its answer;
  \<^item> \<open>contract_addMedicine\<close>: \<^verbatim>\<open>getSigner\<close>, the call \<^verbatim>\<open>addMedicine\<close> of the contract and
    \<^verbatim>\<open>tx.wait()\<close>, answering \<^verbatim>\<open>tx.hash\<close>.
\<close>

record 'w env =
  ToNumber :: "jsval \<Rightarrow> jsnum"
  epochSeconds :: "jsval \<Rightarrow> jsnum"
  toISOString_now :: "'w \<Rightarrow> string \<times> 'w"
  getMedicinesFromFirestore :: "'w \<Rightarrow> (js_error + medicine list) \<times> 'w"
  addMedicineToFirestore :: "medicine \<Rightarrow> 'w \<Rightarrow> (js_error + medicine) \<times> 'w"
  updateMedicineInFirestore :: "string \<Rightarrow> medicine \<Rightarrow> 'w \<Rightarrow> (js_error + medicine) \<times> 'w"
  window_ethereum :: "'w \<Rightarrow> bool"
  contract_getMedicine :: "jsval \<Rightarrow> 'w \<Rightarrow> (js_error + chain_data) \<times> 'w"
  contract_addMedicine :: "chain_fields \<Rightarrow> 'w \<Rightarrow> (js_error + string) \<times> 'w"

fun Number :: "'w env \<Rightarrow> jsval \<Rightarrow> jsnum" where
  "Number E Undefined = NaN"
| "Number E Null = Fin 0"
| "Number E (JBool b) = Fin (if b then 1 else 0)"
| "Number E (JNum n) = n"
| "Number E v = ToNumber E v"

record store_state =
  medicines :: "medicine list"
  isInitialized :: bool
  error :: "string option"
  loading :: bool

section \<open>Blockchain service\<close>

text \<open>
  \<^verbatim>\<open>
  export async function getMedicineOnChain(batch: string) {
    try {
      const data = await contract.getMedicine(batch);
      return { name: data.name, ..., exists: Boolean(data.exists) };
    } catch (err) {
      console.error("... Blockchain fetch error:", err);
      return null;
    }
  }
  \<close>
\<close>

definition getMedicineOnChain ::
  "'w env \<Rightarrow> jsval \<Rightarrow> 'w \<Rightarrow> chain_data option \<times> 'w \<times> event list" where
  "getMedicineOnChain E b w =
     (case contract_getMedicine E b w of
        (Inl err, w1) \<Rightarrow> (None, w1, [ContractRead b (Inl err)])
      | (Inr d, w1) \<Rightarrow> (Some d, w1, [ContractRead b (Inr d)]))"

text \<open>
  \<^verbatim>\<open>
  export async function addMedicineOnChain(name, batch, manufacturer, price, stock,
                                           mfgDate, expDate) {
    try {
      if (!window.ethereum) throw new Error("MetaMask not installed!");
      ... const tx = await contractWithSigner.addMedicine(...); await tx.wait();
      return tx.hash;
    } catch (err) {
      console.error("... Blockchain addMedicine error:", err);
      throw err;
    }
  }
  \<close>
  The arguments \<^verbatim>\<open>price\<close> to \<^verbatim>\<open>expDate\<close> are numbers already, which \<^verbatim>\<open>Number\<close> keeps.
\<close>

definition addMedicineOnChain ::
  "'w env \<Rightarrow> chain_fields \<Rightarrow> 'w \<Rightarrow> (js_error + string) \<times> 'w \<times> event list" where
  "addMedicineOnChain E args w =
     (if \<not> window_ethereum E w then (Inl (Error ''MetaMask not installed!''), w, [])
      else (case contract_addMedicine E args w of
              (Inl err, w1) \<Rightarrow> (Inl err, w1, [ContractWrite args])
            | (Inr txHash, w1) \<Rightarrow> (Inr txHash, w1, [ContractWrite args])))"

section \<open>The store: fetchMedicines\<close>

text \<open>\<^verbatim>\<open>chainData && chainData.exists\<close>\<close>

definition chainExists :: "chain_data option \<Rightarrow> bool" where
  "chainExists chainData = (case chainData of None \<Rightarrow> False | Some d \<Rightarrow> exists d)"

text \<open>
  The body of the loop of \<^verbatim>\<open>fetchMedicines\<close>, after the lookup:
  \<^verbatim>\<open>
  if (chainData && chainData.exists) {
    med.ledgerStatus = "On-Chain";
    med.stock = chainData.stock;
    med.price = chainData.price;
    med.manufacturer = chainData.manufacturer;
  } else {
    med.ledgerStatus = "Pending Confirmation";
  }
  med.stockStatus = getStockStatus(Number(med.stock));
  \<close>
\<close>

definition mergeRecord :: "'w env \<Rightarrow> medicine \<Rightarrow> chain_data option \<Rightarrow> medicine" where
  "mergeRecord E med chainData =
     (let med1 =
        (case chainData of
           Some d \<Rightarrow>
             if exists d
             then med(''ledgerStatus'' \<mapsto> JStr ''On-Chain'',
                      ''stock'' \<mapsto> JNum (stock d),
                      ''price'' \<mapsto> JNum (price d),
                      ''manufacturer'' \<mapsto> manufacturer d)
             else med(''ledgerStatus'' \<mapsto> JStr ''Pending Confirmation'')
         | None \<Rightarrow> med(''ledgerStatus'' \<mapsto> JStr ''Pending Confirmation''))
      in med1(''stockStatus'' \<mapsto> JStr (getStockStatus (Number E (field med1 ''stock'')))))"

text \<open>
  The loop \<^verbatim>\<open>for (const med of meds)\<close>. It stands inside the \<^verbatim>\<open>try\<close>, so a lookup that
  rejected would end it; the lookup is a parameter for that reason, and
  \<^verbatim>\<open>fetchMedicines\<close> passes \<^verbatim>\<open>getMedicineOnChain\<close>.
\<close>

type_synonym 'w lookup =
  "jsval \<Rightarrow> 'w \<Rightarrow> (js_error + chain_data option) \<times> 'w \<times> event list"

fun mergeLoop ::
  "'w env \<Rightarrow> 'w lookup \<Rightarrow> medicine list \<Rightarrow> 'w \<Rightarrow> (js_error + medicine list) \<times> 'w \<times> event list" where
  "mergeLoop E lookup [] w = (Inr [], w, [])"
| "mergeLoop E lookup (med # meds) w =
     (case lookup (field med ''batchNo'') w of
        (Inl err, w1, ev) \<Rightarrow> (Inl err, w1, ev)
      | (Inr chainData, w1, ev) \<Rightarrow>
          (case mergeLoop E lookup meds w1 of
             (Inl err, w2, ev2) \<Rightarrow> (Inl err, w2, ev @ ev2)
           | (Inr merged, w2, ev2) \<Rightarrow>
               (Inr (mergeRecord E med chainData # merged), w2, ev @ ev2)))"

definition fetchWith ::
  "'w env \<Rightarrow> 'w lookup \<Rightarrow> store_state \<Rightarrow> 'w \<Rightarrow> store_state \<times> 'w \<times> event list" where
  "fetchWith E lookup s w =
     (let s1 = s\<lparr>loading := True\<rparr> in
      case getMedicinesFromFirestore E w of
        (Inl err, w1) \<Rightarrow>
          (s1\<lparr>loading := False, error := Some ''Failed to fetch medicines''\<rparr>, w1, [ListRecords])
      | (Inr meds, w1) \<Rightarrow>
          (case mergeLoop E lookup meds w1 of
             (Inl err, w2, ev) \<Rightarrow>
               (s1\<lparr>loading := False, error := Some ''Failed to fetch medicines''\<rparr>,
                w2, ListRecords # ev)
           | (Inr merged, w2, ev) \<Rightarrow>
               (s1\<lparr>medicines := merged, isInitialized := True, loading := False\<rparr>,
                w2, ListRecords # ev)))"

text \<open>\<^verbatim>\<open>await getMedicineOnChain(med.batchNo)\<close>: the promise always resolves.\<close>

definition awaitOnChain :: "'w env \<Rightarrow> 'w lookup" where
  "awaitOnChain E b w = (case getMedicineOnChain E b w of (r, w1, ev) \<Rightarrow> (Inr r, w1, ev))"

definition fetchMedicines ::
  "'w env \<Rightarrow> store_state \<Rightarrow> 'w \<Rightarrow> store_state \<times> 'w \<times> event list" where
  "fetchMedicines E s w = fetchWith E (awaitOnChain E) s w"


section \<open>The store: addMedicine\<close>

text \<open>
  The seven arguments of the call \<^verbatim>\<open>addMedicineOnChain(payload.name, payload.batchNo,
  payload.manufacturer, Number(payload.price), Number(payload.quantity),
  Math.floor(new Date(payload.mfgDate).getTime() / 1000),
  Math.floor(new Date(payload.expDate).getTime() / 1000))\<close>.
\<close>

definition chainArgs :: "'w env \<Rightarrow> medicine \<Rightarrow> chain_fields" where
  "chainArgs E payload =
     \<lparr> name = field payload ''name'',
       batch = field payload ''batchNo'',
       manufacturer = field payload ''manufacturer'',
       price = Number E (field payload ''price''),
       stock = Number E (field payload ''quantity''),
       mfgDate = epochSeconds E (field payload ''mfgDate''),
       expDate = epochSeconds E (field payload ''expDate'') \<rparr>"

text \<open>
  The object given to \<^verbatim>\<open>addMedicineToFirestore\<close>:
  \<^verbatim>\<open>{ ...payload, txHash, ledgerStatus, onChain: ledgerStatus === "On-Chain" }\<close>, with
  \<^verbatim>\<open>ledgerStatus\<close> being \<^verbatim>\<open>"On-Chain"\<close> if \<^verbatim>\<open>chainData && chainData.exists\<close> and
  \<^verbatim>\<open>"Pending Confirmation"\<close> otherwise.
\<close>

definition resolveLedgerStatus :: "chain_data option \<Rightarrow> string" where
  "resolveLedgerStatus chainData =
     (if chainExists chainData then ''On-Chain'' else ''Pending Confirmation'')"

definition newDocument :: "medicine \<Rightarrow> string \<Rightarrow> string \<Rightarrow> medicine" where
  "newDocument payload txHash ledgerStatus =
     payload(''txHash'' \<mapsto> JStr txHash,
             ''ledgerStatus'' \<mapsto> JStr ledgerStatus,
             ''onChain'' \<mapsto> JBool (ledgerStatus = ''On-Chain''))"

text \<open>
  The result is the returned value (\<open>None\<close> for \<^verbatim>\<open>null\<close>), the state of the store, the
  world and the calls made. Every path ends in the \<^verbatim>\<open>finally\<close>, which clears \<^verbatim>\<open>loading\<close>.
\<close>

definition addMedicine ::
  "'w env \<Rightarrow> medicine \<Rightarrow> store_state \<Rightarrow> 'w \<Rightarrow> medicine option \<times> store_state \<times> 'w \<times> event list" where
  "addMedicine E payload s w =
     (let s1 = s\<lparr>loading := True\<rparr> in
      case addMedicineOnChain E (chainArgs E payload) w of
        (Inl err, w1, ev1) \<Rightarrow> (None, s1\<lparr>loading := False\<rparr>, w1, ev1)
      | (Inr txHash, w1, ev1) \<Rightarrow>
          (case getMedicineOnChain E (field payload ''batchNo'') w1 of
             (chainData, w2, ev2) \<Rightarrow>
               (let doc = newDocument payload txHash (resolveLedgerStatus chainData) in
                case addMedicineToFirestore E doc w2 of
                  (Inl err, w3) \<Rightarrow>
                    (None, s1\<lparr>loading := False\<rparr>, w3, ev1 @ ev2 @ [CreateRecord doc])
                | (Inr newMed, w3) \<Rightarrow>
                    (Some newMed,
                     s1\<lparr>medicines := newMed # medicines s1, loading := False\<rparr>,
                     w3, ev1 @ ev2 @ [CreateRecord doc]))))"

section \<open>The store: updateMedicine\<close>

text \<open>
  The callback of \<^verbatim>\<open>state.medicines.map\<close>, with the variable \<^verbatim>\<open>updatedMed\<close> it assigns:
  \<^verbatim>\<open>
  if (m.id === id) { updatedMed = { ...m, ...updatedData }; return updatedMed; }
  return m;
  \<close>
\<close>

fun updateMap ::
  "string \<Rightarrow> medicine \<Rightarrow> medicine list \<Rightarrow> medicine option \<Rightarrow> medicine list \<times> medicine option" where
  "updateMap i updatedData [] updatedMed = ([], updatedMed)"
| "updateMap i updatedData (m # ms) updatedMed =
     (if field m ''id'' = JStr i
      then (case updateMap i updatedData ms (Some (m ++ updatedData)) of
              (newList, r) \<Rightarrow> ((m ++ updatedData) # newList, r))
      else (case updateMap i updatedData ms updatedMed of
              (newList, r) \<Rightarrow> (m # newList, r)))"

definition updateMedicine ::
  "'w env \<Rightarrow> string \<Rightarrow> medicine \<Rightarrow> store_state \<Rightarrow> 'w \<Rightarrow>
     medicine option \<times> store_state \<times> 'w \<times> event list" where
  "updateMedicine E i payload s w =
     (let s1 = s\<lparr>loading := True\<rparr> in
      case updateMedicineInFirestore E i payload w of
        (Inl err, w1) \<Rightarrow> (None, s1\<lparr>loading := False\<rparr>, w1, [UpdateRecord i payload])
      | (Inr updatedData, w1) \<Rightarrow>
          (case updateMap i updatedData (medicines s1) None of
             (newList, updatedMed) \<Rightarrow>
               (updatedMed, s1\<lparr>medicines := newList, loading := False\<rparr>, w1,
                [UpdateRecord i payload])))"

section \<open>The store: approveMedicine\<close>

text \<open>
  \<^verbatim>\<open>[...(m.history || []), entry]\<close>: a falsy history counts as empty, an array gives its
  elements, a string its characters, and any other value is not iterable.
\<close>

fun spreadHistory :: "jsval \<Rightarrow> js_error + jsval list" where
  "spreadHistory (JArr xs) = Inr xs"
| "spreadHistory (JStr s) = Inr (map (\<lambda>c. JStr [c]) s)"
| "spreadHistory v =
     (if truthy v then Inl (TypeError ''not iterable'') else Inr [])"

definition approvedEntry :: "string \<Rightarrow> jsval" where
  "approvedEntry t =
     JObj [(''action'', JStr ''APPROVED''),
           (''timestamp'', JStr t),
           (''changes'', JStr ''Approved by Admin'')]"

text \<open>
  The callback of \<^verbatim>\<open>state.medicines.map\<close>, with the variable \<^verbatim>\<open>approved\<close> it assigns. The
  clock is read once for each record that matches. An exception leaves the callback and
  \<^verbatim>\<open>set\<close>, so that no list is published.
\<close>

fun approveMap ::
  "'w env \<Rightarrow> string \<Rightarrow> medicine list \<Rightarrow> medicine option \<Rightarrow> 'w \<Rightarrow>
     (js_error + medicine list \<times> medicine option) \<times> 'w" where
  "approveMap E i [] approved w = (Inr ([], approved), w)"
| "approveMap E i (m # ms) approved w =
     (if field m ''id'' = JStr i
      then (case spreadHistory (field m ''history'') of
              Inl err \<Rightarrow> (Inl err, w)
            | Inr h \<Rightarrow>
                (case toISOString_now E w of
                   (t, w1) \<Rightarrow>
                     (let a = m(''listingStatus'' \<mapsto> JStr ''Approved'',
                                ''history'' \<mapsto> JArr (h @ [approvedEntry t]))
                      in case approveMap E i ms (Some a) w1 of
                           (Inl err, w2) \<Rightarrow> (Inl err, w2)
                         | (Inr (newList, r), w2) \<Rightarrow> (Inr (a # newList, r), w2))))
      else (case approveMap E i ms approved w of
              (Inl err, w2) \<Rightarrow> (Inl err, w2)
            | (Inr (newList, r), w2) \<Rightarrow> (Inr (m # newList, r), w2)))"

definition approveMedicine ::
  "'w env \<Rightarrow> string \<Rightarrow> store_state \<Rightarrow> 'w \<Rightarrow> medicine option \<times> store_state \<times> 'w \<times> event list" where
  "approveMedicine E i s w =
     (let s1 = s\<lparr>loading := True\<rparr>;
          patch = [''listingStatus'' \<mapsto> JStr ''Approved''] in
      case updateMedicineInFirestore E i patch w of
        (Inl err, w1) \<Rightarrow> (None, s1\<lparr>loading := False\<rparr>, w1, [UpdateRecord i patch])
      | (Inr updatedData, w1) \<Rightarrow>
          (case approveMap E i (medicines s1) None w1 of
             (Inl err, w2) \<Rightarrow> (None, s1\<lparr>loading := False\<rparr>, w2, [UpdateRecord i patch])
           | (Inr (newList, approved), w2) \<Rightarrow>
               (approved, s1\<lparr>medicines := newList, loading := False\<rparr>, w2,
                [UpdateRecord i patch])))"


section \<open>Notions used in the statements\<close>

text \<open>What \<^verbatim>\<open>getMedicineOnChain\<close> makes of the outcome of the contract call.\<close>

fun readResult :: "js_error + chain_data \<Rightarrow> chain_data option" where
  "readResult (Inl err) = None"
| "readResult (Inr d) = Some d"

text \<open>The record \<open>m\<close> is one that \<^verbatim>\<open>m.id === id\<close> selects.\<close>

definition hasId :: "string \<Rightarrow> medicine \<Rightarrow> bool" where
  "hasId i m = (field m ''id'' = JStr i)"

text \<open>The record \<open>m'\<close> is \<open>m\<close> approved at time \<open>t\<close>, the earlier history being \<open>h\<close>.\<close>

definition approvedAt :: "medicine \<Rightarrow> jsval list \<Rightarrow> string list \<Rightarrow> medicine" where
  "approvedAt m h ts =
     m(''listingStatus'' \<mapsto> JStr ''Approved'',
       ''history'' \<mapsto> JArr (h @ map approvedEntry ts))"

section \<open>An environment to run the store in\<close>

text \<open>
  The conversions of this environment. Its documents hold numbers as numbers or as
  strings of decimal digits, and \<open>demoToNumber\<close> reads such a string (the empty string and
  the empty array being 0, as in JavaScript); it gives NaN for any other string, array
  or object, though the runtime reads more forms of literal than this. Its payloads carry
  the two dates that \<open>demoEpochSeconds\<close> knows; a date that is not there is
  \<^verbatim>\<open>new Date(undefined)\<close>, an invalid date, whose time is NaN, and so is any other value
  to this environment.
\<close>

fun decimal :: "string \<Rightarrow> nat \<Rightarrow> nat option" where
  "decimal [] n = Some n"
| "decimal (c # cs) n =
     (if (48::nat) \<le> of_char c \<and> of_char c \<le> (57::nat)
      then decimal cs (10 * n + (of_char c - 48))
      else None)"

fun demoToNumber :: "jsval \<Rightarrow> jsnum" where
  "demoToNumber (JStr s) = (case decimal s 0 of Some n \<Rightarrow> Fin (real n) | None \<Rightarrow> NaN)"
| "demoToNumber (JArr []) = Fin 0"
| "demoToNumber v = NaN"

definition demoEpochSeconds :: "jsval \<Rightarrow> jsnum" where
  "demoEpochSeconds v =
     (if v = JStr ''2024-01-01'' then Fin 1704067200
      else if v = JStr ''2026-01-01'' then Fin 1767225600
      else NaN)"

text \<open>
  The world is the ledger, a list of entries by batch number. The document store lists
  \<open>docs\<close>, assigns the identifier \<^verbatim>\<open>new\<close> on creation and answers an update with the
  patch it was given; the contract rejects a read of an unknown batch; \<open>wallet\<close> says
  whether a signing identity is there.
\<close>

type_synonym ledger = "(jsval \<times> chain_data) list"

definition demoEnv :: "medicine list \<Rightarrow> bool \<Rightarrow> ledger env" where
  "demoEnv docs wallet =
     \<lparr> ToNumber = demoToNumber,
       epochSeconds = demoEpochSeconds,
       toISOString_now = (\<lambda>w. (''2024-01-01T00:00:00.000Z'', w)),
       getMedicinesFromFirestore = (\<lambda>w. (Inr docs, w)),
       addMedicineToFirestore = (\<lambda>doc w. (Inr (doc(''id'' \<mapsto> JStr ''new'')), w)),
       updateMedicineInFirestore = (\<lambda>i patch w. (Inr patch, w)),
       window_ethereum = (\<lambda>w. wallet),
       contract_getMedicine =
         (\<lambda>b w. (case map_of w b of
                    None \<Rightarrow> Inl (Error ''call revert exception'')
                  | Some d \<Rightarrow> Inr d, w)),
       contract_addMedicine =
         (\<lambda>args w.
            (Inr ''0xabc'',
             (batch args,
              \<lparr> name = name args, batch = batch args, manufacturer = manufacturer args,
                price = price args, stock = stock args, mfgDate = mfgDate args,
                expDate = expDate args, exists = True \<rparr>) # w)) \<rparr>"

text \<open>The same with a document store that rejects every call.\<close>

definition offlineEnv :: "bool \<Rightarrow> ledger env" where
  "offlineEnv wallet =
     (demoEnv [] wallet)
       \<lparr> getMedicinesFromFirestore := (\<lambda>w. (Inl (Error ''unavailable''), w)),
         addMedicineToFirestore := (\<lambda>doc w. (Inl (Error ''unavailable''), w)),
         updateMedicineInFirestore := (\<lambda>i patch w. (Inl (Error ''unavailable''), w)) \<rparr>"

definition emptyStore :: store_state where
  "emptyStore = \<lparr> medicines = [], isInitialized = False, error = None, loading = False \<rparr>"

text \<open>A document as \<^verbatim>\<open>addMedicine\<close> writes it: it has a \<^verbatim>\<open>quantity\<close> and no \<^verbatim>\<open>stock\<close>.\<close>

definition docB1 :: medicine where
  "docB1 = [''id'' \<mapsto> JStr ''1'', ''batchNo'' \<mapsto> JStr ''B1'', ''quantity'' \<mapsto> JNum (Fin 30)]"

definition docB2 :: medicine where
  "docB2 = [''id'' \<mapsto> JStr ''2'', ''batchNo'' \<mapsto> JStr ''B2'', ''quantity'' \<mapsto> JNum (Fin 80)]"

definition chainB1 :: chain_data where
  "chainB1 = \<lparr> name = JStr ''Aspirin'', batch = JStr ''B1'', manufacturer = JStr ''Acme'',
               price = Fin 10, stock = Fin 5, mfgDate = Fin 1704067200,
               expDate = Fin 1767225600, exists = True \<rparr>"

definition storeB1 :: store_state where
  "storeB1 = emptyStore\<lparr>medicines := [docB1], isInitialized := True\<rparr>"

text \<open>What the form of the page hands to \<^verbatim>\<open>addMedicine\<close>.\<close>

definition payloadB3 :: medicine where
  "payloadB3 =
     [''name'' \<mapsto> JStr ''Ibuprofen'', ''batchNo'' \<mapsto> JStr ''B3'',
      ''manufacturer'' \<mapsto> JStr ''Acme'', ''price'' \<mapsto> JNum (Fin 12),
      ''quantity'' \<mapsto> JNum (Fin 40), ''mfgDate'' \<mapsto> JStr ''2024-01-01'',
      ''expDate'' \<mapsto> JStr ''2026-01-01'']"

text \<open>The entry that the contract of this environment makes of it.\<close>

definition chainB3 :: chain_data where
  "chainB3 = \<lparr> name = JStr ''Ibuprofen'', batch = JStr ''B3'', manufacturer = JStr ''Acme'',
               price = Fin 12, stock = Fin 40, mfgDate = Fin 1704067200,
               expDate = Fin 1767225600, exists = True \<rparr>"


section \<open>Properties of the stock logic\<close>

text \<open>
  C3, amended. The classifier is total. It answers \<^verbatim>\<open>Out of Stock\<close> exactly when \<open>q <= 0\<close>,
  \<^verbatim>\<open>Low Stock\<close> exactly when \<open>0 < q <= 50\<close>, and \<^verbatim>\<open>In Stock\<close> exactly when \<open>q > 50\<close> or \<open>q\<close>
  is NaN; 50 is \<^verbatim>\<open>Low Stock\<close> and 51 is \<^verbatim>\<open>In Stock\<close>. The copy in the page component
  computes the same.
\<close>

theorem getStockStatus_classification:
  "(getStockStatus q = ''Out of Stock'') = js_le q (Fin 0) \<and>
   (getStockStatus q = ''Low Stock'') = (js_lt (Fin 0) q \<and> js_le q (Fin 50)) \<and>
   (getStockStatus q = ''In Stock'') = (js_lt (Fin 50) q \<or> q = NaN) \<and>
   getStockStatus (Fin 50) = ''Low Stock'' \<and>
   getStockStatus (Fin 51) = ''In Stock'' \<and>
   getUIStockStatus q = getStockStatus q"
  by (cases q) (auto simp: getStockStatus_def getUIStockStatus_def)

text \<open>
  C3 as stated fails at NaN, which the classifier calls \<^verbatim>\<open>In Stock\<close> although the
  comparison \<open>NaN > 50\<close> is false.
\<close>

theorem getStockStatus_NaN_counterexample:
  "getStockStatus NaN = ''In Stock'' \<and> \<not> js_lt (Fin 50) NaN"
  by (simp add: getStockStatus_def)

section \<open>Properties of fetchMedicines\<close>

lemma getMedicineOnChain_readResult:
  "contract_getMedicine E b w = (r, w1) \<Longrightarrow>
   getMedicineOnChain E b w = (readResult r, w1, [ContractRead b r])"
  by (cases r) (simp_all add: getMedicineOnChain_def)

lemma mergeLoop_awaitOnChain:
  "\<exists>raws w2. length raws = length meds \<and>
     mergeLoop E (awaitOnChain E) meds w =
       (Inr (map2 (mergeRecord E) meds (map readResult raws)), w2,
        map2 (\<lambda>m. ContractRead (field m ''batchNo'')) meds raws)"
proof (induction meds arbitrary: w)
  case Nil
  show ?case by simp
next
  case (Cons med meds)
  obtain r w1 where c: "contract_getMedicine E (field med ''batchNo'') w = (r, w1)"
    by (cases "contract_getMedicine E (field med ''batchNo'') w")
  from Cons.IH [of w1] obtain raws w2 where
    len: "length raws = length meds" and
    loop: "mergeLoop E (awaitOnChain E) meds w1 =
       (Inr (map2 (mergeRecord E) meds (map readResult raws)), w2,
        map2 (\<lambda>m. ContractRead (field m ''batchNo'')) meds raws)"
    by blast
  have "length (r # raws) = length (med # meds)" using len by simp
  moreover have "mergeLoop E (awaitOnChain E) (med # meds) w =
       (Inr (map2 (mergeRecord E) (med # meds) (map readResult (r # raws))), w2,
        map2 (\<lambda>m. ContractRead (field m ''batchNo'')) (med # meds) (r # raws))"
    using loop by (simp add: awaitOnChain_def getMedicineOnChain_readResult [OF c])
  ultimately show ?case by blast
qed

lemma mergeRecord_onChain:
  assumes "exists d"
  shows "mergeRecord E med (Some d) =
           med(''ledgerStatus'' \<mapsto> JStr ''On-Chain'',
               ''stock'' \<mapsto> JNum (stock d),
               ''price'' \<mapsto> JNum (price d),
               ''manufacturer'' \<mapsto> manufacturer d,
               ''stockStatus'' \<mapsto> JStr (getStockStatus (stock d)))"
  using assms by (simp add: mergeRecord_def field_def Let_def)

lemma mergeRecord_pending:
  assumes "\<not> chainExists c"
  shows "mergeRecord E med c =
           med(''ledgerStatus'' \<mapsto> JStr ''Pending Confirmation'',
               ''stockStatus'' \<mapsto> JStr (getStockStatus (Number E (field med ''stock''))))"
  using assms by (cases c) (simp_all add: mergeRecord_def field_def Let_def chainExists_def)

lemma mergeRecord_stockStatus:
  "field (mergeRecord E med c) ''stockStatus'' =
     JStr (getStockStatus (Number E (field (mergeRecord E med c) ''stock'')))"
  by (cases c) (simp_all add: mergeRecord_def field_def Let_def)

lemma mergeLoop_nth:
  assumes "i < length meds"
  shows "\<exists>merged w2 ev.
           mergeLoop E (awaitOnChain E) meds w = (Inr merged, w2, ev) \<and>
           length merged = length meds \<and> length ev = length meds \<and>
           merged ! i =
             mergeRecord E (meds ! i)
               (readResult (fst (contract_getMedicine E (field (meds ! i) ''batchNo'')
                  (foldl (\<lambda>v m. snd (contract_getMedicine E (field m ''batchNo'') v)) w
                     (take i meds))))) \<and>
           ev ! i =
             ContractRead (field (meds ! i) ''batchNo'')
               (fst (contract_getMedicine E (field (meds ! i) ''batchNo'')
                  (foldl (\<lambda>v m. snd (contract_getMedicine E (field m ''batchNo'') v)) w
                     (take i meds))))"
  using assms
proof (induction meds arbitrary: w i)
  case Nil
  then show ?case by simp
next
  case (Cons med meds)
  obtain r w1 where c: "contract_getMedicine E (field med ''batchNo'') w = (r, w1)"
    by (cases "contract_getMedicine E (field med ''batchNo'') w")
  note head = getMedicineOnChain_readResult [OF c]
  from mergeLoop_awaitOnChain [of meds E w1] obtain merged w2 ev where
    tail: "mergeLoop E (awaitOnChain E) meds w1 = (Inr merged, w2, ev)" and
    len: "length merged = length meds" "length ev = length meds"
    by fastforce
  have whole: "mergeLoop E (awaitOnChain E) (med # meds) w =
      (Inr (mergeRecord E med (readResult r) # merged), w2,
       ContractRead (field med ''batchNo'') r # ev)"
    by (simp add: awaitOnChain_def head tail)
  show ?case
  proof (cases i)
    case 0
    with whole len c show ?thesis
      by simp
  next
    case (Suc n)
    with Cons.prems have n: "n < length meds"
      by simp
    from Cons.IH [OF n, of w1] tail have
      "merged ! n =
             mergeRecord E (meds ! n)
               (readResult (fst (contract_getMedicine E (field (meds ! n) ''batchNo'')
                  (foldl (\<lambda>v m. snd (contract_getMedicine E (field m ''batchNo'') v)) w1
                     (take n meds))))) \<and>
           ev ! n =
             ContractRead (field (meds ! n) ''batchNo'')
               (fst (contract_getMedicine E (field (meds ! n) ''batchNo'')
                  (foldl (\<lambda>v m. snd (contract_getMedicine E (field m ''batchNo'') v)) w1
                     (take n meds))))"
      by auto
    with whole len c Suc show ?thesis
      by simp
  qed
qed

lemma fetchMedicines_nth:
  assumes list: "getMedicinesFromFirestore E w = (Inr meds, w1)"
    and i: "i < length meds"
    and wi: "wi = foldl (\<lambda>v m. snd (contract_getMedicine E (field m ''batchNo'') v)) w1
                    (take i meds)"
    and read: "contract_getMedicine E (field (meds ! i) ''batchNo'') wi = (r, wi')"
    and run: "fetchMedicines E s w = (s', w', tr)"
  shows "loading s' = False \<and> isInitialized s' = True \<and> error s' = error s \<and>
         length (medicines s') = length meds \<and>
         medicines s' ! i = mergeRecord E (meds ! i) (readResult r) \<and>
         tr ! Suc i = ContractRead (field (meds ! i) ''batchNo'') r"
proof -
  from mergeLoop_nth [OF i, of E w1] obtain merged w2 ev where
    loop: "mergeLoop E (awaitOnChain E) meds w1 = (Inr merged, w2, ev)" and
    len: "length merged = length meds" and
    rec: "merged ! i = mergeRecord E (meds ! i) (readResult (fst (contract_getMedicine E
            (field (meds ! i) ''batchNo'') wi)))" and
    ev: "ev ! i = ContractRead (field (meds ! i) ''batchNo'')
           (fst (contract_getMedicine E (field (meds ! i) ''batchNo'') wi))"
    unfolding wi by blast
  from run list loop have
    "s' = s\<lparr>loading := True, medicines := merged, isInitialized := True, loading := False\<rparr>"
    "tr = ListRecords # ev"
    by (simp_all add: fetchMedicines_def fetchWith_def)
  with len rec ev read show ?thesis
    by simp
qed

text \<open>
  C1. Let the list call answer the records \<open>meds\<close>, and let \<open>wi\<close> be the world that the
  contract reads for the records before the \<open>i\<close>-th leave behind. The fetch reads the
  contract in \<open>wi\<close> for the batch number of the \<open>i\<close>-th record, and its \<open>i\<close>-th record follows
  the answer \<open>r\<close>: if \<open>r\<close> is a record that exists, \<^verbatim>\<open>ledgerStatus\<close> is \<^verbatim>\<open>On-Chain\<close> and \<^verbatim>\<open>stock\<close>,
  \<^verbatim>\<open>price\<close> and \<^verbatim>\<open>manufacturer\<close> are those of \<open>r\<close>; otherwise \<^verbatim>\<open>ledgerStatus\<close> is
  \<^verbatim>\<open>Pending Confirmation\<close>, and every field but that one and the recomputed \<^verbatim>\<open>stockStatus\<close>
  is as the document store gave it. The store holds as many records as were listed.
\<close>

theorem fetch_ledger_merge:
  assumes "getMedicinesFromFirestore E w = (Inr meds, w1)"
    and "i < length meds"
    and "wi = foldl (\<lambda>v m. snd (contract_getMedicine E (field m ''batchNo'') v)) w1
                (take i meds)"
    and "contract_getMedicine E (field (meds ! i) ''batchNo'') wi = (r, wi')"
    and "fetchMedicines E s w = (s', w', tr)"
  shows "length (medicines s') = length meds \<and>
         tr ! Suc i = ContractRead (field (meds ! i) ''batchNo'') r \<and>
         (\<forall>d. r = Inr d \<and> exists d \<longrightarrow>
            field (medicines s' ! i) ''ledgerStatus'' = JStr ''On-Chain'' \<and>
            field (medicines s' ! i) ''stock'' = JNum (stock d) \<and>
            field (medicines s' ! i) ''price'' = JNum (price d) \<and>
            field (medicines s' ! i) ''manufacturer'' = manufacturer d \<and>
            (\<forall>k. k \<notin> {''ledgerStatus'', ''stock'', ''price'', ''manufacturer'',
                       ''stockStatus''} \<longrightarrow>
                 (medicines s' ! i) k = (meds ! i) k)) \<and>
         (\<not> (\<exists>d. r = Inr d \<and> exists d) \<longrightarrow>
            field (medicines s' ! i) ''ledgerStatus'' = JStr ''Pending Confirmation'' \<and>
            (\<forall>k. k \<notin> {''ledgerStatus'', ''stockStatus''} \<longrightarrow>
                 (medicines s' ! i) k = (meds ! i) k))"
proof -
  note nth = fetchMedicines_nth [OF assms]
  from nth have rec: "medicines s' ! i = mergeRecord E (meds ! i) (readResult r)"
    by blast
  have on: "\<forall>d. r = Inr d \<and> exists d \<longrightarrow>
            field (medicines s' ! i) ''ledgerStatus'' = JStr ''On-Chain'' \<and>
            field (medicines s' ! i) ''stock'' = JNum (stock d) \<and>
            field (medicines s' ! i) ''price'' = JNum (price d) \<and>
            field (medicines s' ! i) ''manufacturer'' = manufacturer d \<and>
            (\<forall>k. k \<notin> {''ledgerStatus'', ''stock'', ''price'', ''manufacturer'',
                       ''stockStatus''} \<longrightarrow>
                 (medicines s' ! i) k = (meds ! i) k)"
    by (simp add: rec mergeRecord_onChain field_def)
  have "\<not> chainExists (readResult r)" if "\<not> (\<exists>d. r = Inr d \<and> exists d)"
    using that by (cases r) (simp_all add: chainExists_def)
  then have off: "\<not> (\<exists>d. r = Inr d \<and> exists d) \<longrightarrow>
            field (medicines s' ! i) ''ledgerStatus'' = JStr ''Pending Confirmation'' \<and>
            (\<forall>k. k \<notin> {''ledgerStatus'', ''stockStatus''} \<longrightarrow>
                 (medicines s' ! i) k = (meds ! i) k)"
    by (simp add: rec mergeRecord_pending field_def)
  from nth on off show ?thesis
    by blast
qed

theorem fetch_ledger_merge_witness:
  "getMedicinesFromFirestore (demoEnv [docB2, docB1] True) [(JStr ''B1'', chainB1)] =
     (Inr [docB2, docB1], [(JStr ''B1'', chainB1)]) \<and>
   (1::nat) < length [docB2, docB1] \<and>
   contract_getMedicine (demoEnv [docB2, docB1] True) (field ([docB2, docB1] ! 1) ''batchNo'')
       [(JStr ''B1'', chainB1)] = (Inr chainB1, [(JStr ''B1'', chainB1)]) \<and>
   exists chainB1 \<and>
   field (medicines (fst (fetchMedicines (demoEnv [docB2, docB1] True) emptyStore
                            [(JStr ''B1'', chainB1)])) ! 1) ''ledgerStatus'' = JStr ''On-Chain'' \<and>
   field (medicines (fst (fetchMedicines (demoEnv [docB2, docB1] True) emptyStore
                            [(JStr ''B1'', chainB1)])) ! 1) ''stock'' = JNum (Fin 5) \<and>
   field (medicines (fst (fetchMedicines (demoEnv [docB2, docB1] True) emptyStore
                            [(JStr ''B1'', chainB1)])) ! 0) ''ledgerStatus'' =
     JStr ''Pending Confirmation''"
proof -
  let ?E = "demoEnv [docB2, docB1] True" and ?w = "[(JStr ''B1'', chainB1)]"
  let ?run = "fetchMedicines ?E emptyStore ?w"
  have list: "getMedicinesFromFirestore ?E ?w = (Inr [docB2, docB1], ?w)"
    by (simp add: demoEnv_def)
  have run: "?run = (fst ?run, fst (snd ?run), snd (snd ?run))"
    by simp
  have i1: "1 < length [docB2, docB1]" and i0: "0 < length [docB2, docB1]"
    by simp_all
  have w1: "?w = foldl (\<lambda>v m. snd (contract_getMedicine ?E (field m ''batchNo'') v)) ?w
                   (take 1 [docB2, docB1])"
    by (simp add: demoEnv_def)
  have w0: "?w = foldl (\<lambda>v m. snd (contract_getMedicine ?E (field m ''batchNo'') v)) ?w
                   (take 0 [docB2, docB1])"
    by simp
  have r1: "contract_getMedicine ?E (field ([docB2, docB1] ! 1) ''batchNo'') ?w =
              (Inr chainB1, ?w)"
    by (simp add: demoEnv_def docB1_def field_def)
  have r0: "contract_getMedicine ?E (field ([docB2, docB1] ! 0) ''batchNo'') ?w =
              (Inl (Error ''call revert exception''), ?w)"
    by (simp add: demoEnv_def docB2_def field_def)
  have ex: "exists chainB1" and st: "stock chainB1 = Fin 5"
    by (simp_all add: chainB1_def)
  note t1 = fetch_ledger_merge [OF list i1 w1 r1 run]
  note t0 = fetch_ledger_merge [OF list i0 w0 r0 run]
  from t1 [THEN conjunct2, THEN conjunct2, THEN conjunct1, rule_format, of chainB1] ex
  have on: "field (medicines (fst ?run) ! 1) ''ledgerStatus'' = JStr ''On-Chain'' \<and>
            field (medicines (fst ?run) ! 1) ''stock'' = JNum (stock chainB1)"
    by blast
  from t0 [THEN conjunct2, THEN conjunct2, THEN conjunct2]
  have off: "field (medicines (fst ?run) ! 0) ''ledgerStatus'' = JStr ''Pending Confirmation''"
    by simp
  from list i1 r1 ex on off st show ?thesis
    by simp
qed

lemma mergeLoop_rejected:
  assumes "mergeLoop E lookup pre w = (Inr merged, w2, ev)"
    and "lookup (field med ''batchNo'') w2 = (Inl err, w3, ev3)"
  shows "mergeLoop E lookup (pre @ med # post) w = (Inl err, w3, ev @ ev3)"
  using assms
proof (induction pre arbitrary: w merged ev)
  case Nil
  then show ?case by simp
next
  case (Cons m pre)
  obtain r wa eva where l: "lookup (field m ''batchNo'') w = (r, wa, eva)"
    by (cases "lookup (field m ''batchNo'') w")
  from Cons.prems(1) l obtain c where r: "r = Inr c"
    by (cases r) simp_all
  obtain r' wb evb where rest: "mergeLoop E lookup pre wa = (r', wb, evb)"
    by (cases "mergeLoop E lookup pre wa")
  from Cons.prems(1) l r rest obtain merged' where r': "r' = Inr merged'"
    by (cases r') simp_all
  from Cons.prems(1) l r rest r' have eq: "wb = w2" "ev = eva @ evb"
    by simp_all
  from Cons.IH [OF rest [unfolded r' eq(1)] Cons.prems(2)]
  show ?case by (simp add: l r eq)
qed

text \<open>
  C4. If the list call rejects, or the lookup made for some record rejects after the
  records before it went through, the fetch ends with \<^verbatim>\<open>loading\<close> false and the error
  message set, and the list of the store (and \<^verbatim>\<open>isInitialized\<close>) is what it was before.
  This holds for any lookup in the place of \<^verbatim>\<open>getMedicineOnChain\<close>, and so for
  \<^verbatim>\<open>fetchMedicines\<close>, whose own lookups never reject.
\<close>

theorem fetch_failure_aborts:
  assumes "fetchWith E lookup s w = (s', w', tr)"
    and "(\<exists>err w1. getMedicinesFromFirestore E w = (Inl err, w1)) \<or>
         (\<exists>pre med post w1 merged w2 ev err.
            getMedicinesFromFirestore E w = (Inr (pre @ med # post), w1) \<and>
            mergeLoop E lookup pre w1 = (Inr merged, w2, ev) \<and>
            fst (lookup (field med ''batchNo'') w2) = Inl err)"
  shows "loading s' = False \<and>
         error s' = Some ''Failed to fetch medicines'' \<and>
         medicines s' = medicines s \<and>
         isInitialized s' = isInitialized s"
  using assms(2)
proof (elim disjE exE conjE)
  fix err w1
  assume "getMedicinesFromFirestore E w = (Inl err, w1)"
  with assms(1) show ?thesis
    by (auto simp: fetchWith_def)
next
  fix pre med post w1 merged w2 ev err
  assume list: "getMedicinesFromFirestore E w = (Inr (pre @ med # post), w1)"
    and pre: "mergeLoop E lookup pre w1 = (Inr merged, w2, ev)"
    and rej: "fst (lookup (field med ''batchNo'') w2) = Inl err"
  from rej obtain w3 ev3 where "lookup (field med ''batchNo'') w2 = (Inl err, w3, ev3)"
    by (cases "lookup (field med ''batchNo'') w2") simp
  from mergeLoop_rejected [OF pre this]
  have "mergeLoop E lookup (pre @ med # post) w1 = (Inl err, w3, ev @ ev3)" .
  with list assms(1) show ?thesis
    by (auto simp: fetchWith_def)
qed

theorem fetch_failure_aborts_witness:
  "(\<exists>err w1. getMedicinesFromFirestore (offlineEnv True) [] = (Inl err, w1)) \<and>
   loading (fst (fetchWith (offlineEnv True) (awaitOnChain (offlineEnv True)) storeB1 [])) = False \<and>
   error (fst (fetchWith (offlineEnv True) (awaitOnChain (offlineEnv True)) storeB1 [])) =
     Some ''Failed to fetch medicines'' \<and>
   medicines (fst (fetchWith (offlineEnv True) (awaitOnChain (offlineEnv True)) storeB1 [])) =
     medicines storeB1 \<and>
   getMedicinesFromFirestore (demoEnv [docB1] True) [] = (Inr ([] @ docB1 # []), []) \<and>
   error (fst (fetchWith (demoEnv [docB1] True) (\<lambda>b w. (Inl (Error ''timeout''), w, []))
                 emptyStore [])) = Some ''Failed to fetch medicines'' \<and>
   medicines (fst (fetchWith (demoEnv [docB1] True) (\<lambda>b w. (Inl (Error ''timeout''), w, []))
                 emptyStore [])) = medicines emptyStore"
proof -
  let ?E = "offlineEnv True"
  let ?run = "fetchWith ?E (awaitOnChain ?E) storeB1 []"
  have h1: "?run = (fst ?run, fst (snd ?run), snd (snd ?run))"
    by simp
  have rej: "getMedicinesFromFirestore ?E [] = (Inl (Error ''unavailable''), [])"
    by (simp add: offlineEnv_def)
  then have h2: "\<exists>err w1. getMedicinesFromFirestore ?E [] = (Inl err, w1)"
    by blast
  note first = fetch_failure_aborts [OF h1 disjI1 [OF h2]]
  let ?D = "demoEnv [docB1] True"
  let ?l = "\<lambda>(b::jsval) (w::ledger). (Inl (Error ''timeout'') :: js_error + chain_data option, w,
                     [] :: event list)"
  let ?run2 = "fetchWith ?D ?l emptyStore []"
  have g1: "?run2 = (fst ?run2, fst (snd ?run2), snd (snd ?run2))"
    by simp
  have a: "getMedicinesFromFirestore ?D [] = (Inr ([] @ docB1 # []), [])"
    by (simp add: demoEnv_def)
  have b: "mergeLoop ?D ?l [] [] = (Inr [], [], [])"
    by simp
  have c: "fst (?l (field docB1 ''batchNo'') []) = Inl (Error ''timeout'')"
    by simp
  from a b c have g2: "\<exists>pre med post w1 merged w2 ev err.
            getMedicinesFromFirestore ?D [] = (Inr (pre @ med # post), w1) \<and>
            mergeLoop ?D ?l pre w1 = (Inr merged, w2, ev) \<and>
            fst (?l (field med ''batchNo'') w2) = Inl err"
    by blast
  note second = fetch_failure_aborts [OF g1 disjI2 [OF g2]]
  from first second h2 a show ?thesis
    by simp
qed

lemma mergeRecord_absent:
  "\<not> exists d \<Longrightarrow> mergeRecord E med (Some d) = mergeRecord E med None"
  by (simp add: mergeRecord_def)

text \<open>
  C9. Let the list call answer the records \<open>meds\<close>, let \<open>wi\<close> be the world that the contract
  reads for the records before the \<open>i\<close>-th leave behind, and let the contract reject the
  read for the \<open>i\<close>-th record in \<open>wi\<close>. Then \<^verbatim>\<open>getMedicineOnChain\<close> answers \<^verbatim>\<open>null\<close> there, and
  the fetch completes: \<^verbatim>\<open>loading\<close> is false, \<^verbatim>\<open>isInitialized\<close> is true, the error message is
  left as it was and the store holds as many records as were listed. Its \<open>i\<close>-th record is
  \<^verbatim>\<open>Pending Confirmation\<close>, and is the very record that any ledger answer without the
  entry would have given.
\<close>

theorem fetch_survives_failed_read:
  assumes "getMedicinesFromFirestore E w = (Inr meds, w1)"
    and "i < length meds"
    and "wi = foldl (\<lambda>v m. snd (contract_getMedicine E (field m ''batchNo'') v)) w1
                (take i meds)"
    and "contract_getMedicine E (field (meds ! i) ''batchNo'') wi = (Inl err, wi')"
    and "fetchMedicines E s w = (s', w', tr)"
  shows "getMedicineOnChain E (field (meds ! i) ''batchNo'') wi =
           (None, wi', [ContractRead (field (meds ! i) ''batchNo'') (Inl err)]) \<and>
         loading s' = False \<and> isInitialized s' = True \<and> error s' = error s \<and>
         length (medicines s') = length meds \<and>
         tr ! Suc i = ContractRead (field (meds ! i) ''batchNo'') (Inl err) \<and>
         field (medicines s' ! i) ''ledgerStatus'' = JStr ''Pending Confirmation'' \<and>
         medicines s' ! i = mergeRecord E (meds ! i) None \<and>
         (\<forall>d. \<not> exists d \<longrightarrow> medicines s' ! i = mergeRecord E (meds ! i) (Some d))"
proof -
  note nth = fetchMedicines_nth [OF assms]
  have wrapper: "getMedicineOnChain E (field (meds ! i) ''batchNo'') wi =
           (None, wi', [ContractRead (field (meds ! i) ''batchNo'') (Inl err)])"
    using assms(4) by (simp add: getMedicineOnChain_def)
  from nth have rec: "medicines s' ! i = mergeRecord E (meds ! i) None"
    by simp
  have pend: "field (medicines s' ! i) ''ledgerStatus'' = JStr ''Pending Confirmation''"
    by (simp add: rec mergeRecord_def field_def)
  have same: "\<forall>d. \<not> exists d \<longrightarrow> medicines s' ! i = mergeRecord E (meds ! i) (Some d)"
    by (simp add: rec mergeRecord_absent)
  from nth wrapper rec pend same show ?thesis
    by blast
qed

theorem fetch_survives_failed_read_witness:
  "getMedicinesFromFirestore (demoEnv [docB1, docB2] True) [(JStr ''B1'', chainB1)] =
     (Inr [docB1, docB2], [(JStr ''B1'', chainB1)]) \<and>
   (1::nat) < length [docB1, docB2] \<and>
   contract_getMedicine (demoEnv [docB1, docB2] True) (field ([docB1, docB2] ! 1) ''batchNo'')
       [(JStr ''B1'', chainB1)] =
     (Inl (Error ''call revert exception''), [(JStr ''B1'', chainB1)]) \<and>
   isInitialized (fst (fetchMedicines (demoEnv [docB1, docB2] True) emptyStore
                         [(JStr ''B1'', chainB1)])) = True \<and>
   error (fst (fetchMedicines (demoEnv [docB1, docB2] True) emptyStore
                 [(JStr ''B1'', chainB1)])) = error emptyStore \<and>
   field (medicines (fst (fetchMedicines (demoEnv [docB1, docB2] True) emptyStore
                            [(JStr ''B1'', chainB1)])) ! 1) ''ledgerStatus'' =
     JStr ''Pending Confirmation''"
proof -
  let ?E = "demoEnv [docB1, docB2] True" and ?w = "[(JStr ''B1'', chainB1)]"
  let ?run = "fetchMedicines ?E emptyStore ?w"
  have list: "getMedicinesFromFirestore ?E ?w = (Inr [docB1, docB2], ?w)"
    by (simp add: demoEnv_def)
  have run: "?run = (fst ?run, fst (snd ?run), snd (snd ?run))"
    by simp
  have i1: "1 < length [docB1, docB2]"
    by simp
  have w1: "?w = foldl (\<lambda>v m. snd (contract_getMedicine ?E (field m ''batchNo'') v)) ?w
                   (take 1 [docB1, docB2])"
    by (simp add: demoEnv_def)
  have r1: "contract_getMedicine ?E (field ([docB1, docB2] ! 1) ''batchNo'') ?w =
              (Inl (Error ''call revert exception''), ?w)"
    by (simp add: demoEnv_def docB2_def field_def)
  from fetch_survives_failed_read [OF list i1 w1 r1 run] list i1 r1 show ?thesis
    by blast
qed

lemma fetch_demo_empty_ledger:
  "fetchMedicines (demoEnv [docB1] True) emptyStore [] =
     (emptyStore\<lparr>medicines := [mergeRecord (demoEnv [docB1] True) docB1 None],
                 isInitialized := True, loading := False\<rparr>,
      [],
      [ListRecords, ContractRead (JStr ''B1'') (Inl (Error ''call revert exception''))])"
  by (simp add: fetchMedicines_def fetchWith_def awaitOnChain_def getMedicineOnChain_def
      demoEnv_def docB1_def field_def)

text \<open>
  C2, at the failing input. The document store lists one record with \<^verbatim>\<open>quantity\<close> 30 and
  no \<^verbatim>\<open>stock\<close>, and the ledger has no entry for it. The fetch leaves \<^verbatim>\<open>quantity\<close> at 30
  and sets \<^verbatim>\<open>stockStatus\<close> to \<^verbatim>\<open>In Stock\<close>, where the classifier gives \<^verbatim>\<open>Low Stock\<close> for 30:
  the status is computed from \<^verbatim>\<open>Number(med.stock)\<close>, here NaN.
\<close>

theorem fetch_stockStatus_not_from_quantity:
  "field (medicines (fst (fetchMedicines (demoEnv [docB1] True) emptyStore [])) ! 0)
     ''quantity'' = JNum (Fin 30) \<and>
   field (medicines (fst (fetchMedicines (demoEnv [docB1] True) emptyStore [])) ! 0)
     ''stockStatus'' = JStr ''In Stock'' \<and>
   getStockStatus (Fin 30) = ''Low Stock''"
  unfolding fetch_demo_empty_ledger
  by (simp add: mergeRecord_def field_def docB1_def getStockStatus_def)

section \<open>Properties of addMedicine\<close>

lemma addMedicineOnChain_events:
  "addMedicineOnChain E args w = (r, w1, ev) \<Longrightarrow> CreateRecord doc \<notin> set ev"
  by (auto simp: addMedicineOnChain_def split: if_splits prod.splits sum.splits)

lemma addMedicine_loading:
  "loading (fst (snd (addMedicine E payload s w))) = False"
  by (simp add: addMedicine_def Let_def split: prod.splits sum.splits)

text \<open>
  C5. Whatever happens, \<^verbatim>\<open>loading\<close> is false after \<^verbatim>\<open>addMedicine\<close>. If the ledger write
  rejects, \<^verbatim>\<open>addMedicine\<close> returns \<^verbatim>\<open>null\<close>, the list of the store is unchanged and no
  create call was made on the document store.
\<close>

theorem add_ledger_write_failure:
  assumes "addMedicine E payload s w = (r, s', w', tr)"
  shows "loading s' = False \<and>
         (\<forall>err. fst (addMedicineOnChain E (chainArgs E payload) w) = Inl err \<longrightarrow>
            r = None \<and> medicines s' = medicines s \<and> (\<forall>doc. CreateRecord doc \<notin> set tr))"
proof -
  from addMedicine_loading [of E payload s w] assms
  have "loading s' = False" by simp
  moreover have "r = None \<and> medicines s' = medicines s \<and> (\<forall>doc. CreateRecord doc \<notin> set tr)"
    if "fst (addMedicineOnChain E (chainArgs E payload) w) = Inl err" for err
  proof -
    from that obtain w1 ev1 where
      wr: "addMedicineOnChain E (chainArgs E payload) w = (Inl err, w1, ev1)"
      by (cases "addMedicineOnChain E (chainArgs E payload) w") simp
    from assms wr have "r = None" "s' = s\<lparr>loading := False\<rparr>" "tr = ev1"
      by (simp_all add: addMedicine_def)
    with addMedicineOnChain_events [OF wr] show ?thesis
      by simp
  qed
  ultimately show ?thesis by blast
qed

theorem add_ledger_write_failure_witness:
  "fst (addMedicineOnChain (demoEnv [] False) (chainArgs (demoEnv [] False) docB1) []) =
     Inl (Error ''MetaMask not installed!'') \<and>
   fst (addMedicine (demoEnv [] False) docB1 storeB1 []) = None \<and>
   medicines (fst (snd (addMedicine (demoEnv [] False) docB1 storeB1 []))) = medicines storeB1 \<and>
   loading (fst (snd (addMedicine (demoEnv [] False) docB1 storeB1 []))) = False"
proof -
  let ?E = "demoEnv [] False"
  let ?run = "addMedicine ?E docB1 storeB1 []"
  have h1: "?run = (fst ?run, fst (snd ?run), fst (snd (snd ?run)), snd (snd (snd ?run)))"
    by simp
  have h2: "fst (addMedicineOnChain ?E (chainArgs ?E docB1) []) =
              Inl (Error ''MetaMask not installed!'')"
    by (simp add: addMedicineOnChain_def demoEnv_def)
  from add_ledger_write_failure [OF h1] h2 show ?thesis
    by blast
qed

text \<open>
  C6. Let a signing identity be there and the contract write answer the transaction
  identifier \<open>txHash\<close>; let \<open>r\<close> be what the contract then answers to the read for the batch
  number of the payload; and let the document store answer \<open>newMed\<close> to the request to
  create \<open>doc\<close>, the payload extended with \<^verbatim>\<open>txHash\<close>, with \<^verbatim>\<open>ledgerStatus\<close> \<^verbatim>\<open>On-Chain\<close> if \<open>r\<close>
  is a record that exists and \<^verbatim>\<open>Pending Confirmation\<close> otherwise, and with \<^verbatim>\<open>onChain\<close> true
  exactly in the first case. Then \<^verbatim>\<open>addMedicine\<close> makes these three calls and no other,
  returns \<open>newMed\<close>, and leaves the store with \<open>newMed\<close> before the records that were there
  and with \<^verbatim>\<open>loading\<close> false.
\<close>

theorem add_success:
  assumes "window_ethereum E w"
    and "contract_addMedicine E (chainArgs E payload) w = (Inr txHash, w1)"
    and "contract_getMedicine E (field payload ''batchNo'') w1 = (r, w2)"
    and "doc = payload(''txHash'' \<mapsto> JStr txHash,
                       ''ledgerStatus'' \<mapsto>
                          JStr (if \<exists>d. r = Inr d \<and> exists d then ''On-Chain''
                                else ''Pending Confirmation''),
                       ''onChain'' \<mapsto> JBool (\<exists>d. r = Inr d \<and> exists d))"
    and "addMedicineToFirestore E doc w2 = (Inr newMed, w3)"
  shows "addMedicine E payload s w =
           (Some newMed,
            s\<lparr>medicines := newMed # medicines s, loading := False\<rparr>,
            w3,
            [ContractWrite (chainArgs E payload),
             ContractRead (field payload ''batchNo'') r,
             CreateRecord doc])"
proof -
  have wr: "addMedicineOnChain E (chainArgs E payload) w =
                 (Inr txHash, w1, [ContractWrite (chainArgs E payload)])"
    using assms(1,2) by (simp add: addMedicineOnChain_def)
  note rd = getMedicineOnChain_readResult [OF assms(3)]
  have ex: "chainExists (readResult r) = (\<exists>d. r = Inr d \<and> exists d)"
    by (cases r) (simp_all add: chainExists_def)
  have doc: "newDocument payload txHash (resolveLedgerStatus (readResult r)) = doc"
    unfolding assms(4) newDocument_def resolveLedgerStatus_def ex
    by (cases "\<exists>d. r = Inr d \<and> exists d") (simp_all only: if_True if_False, auto)
  show ?thesis
    by (simp add: addMedicine_def wr rd doc assms(5))
qed

theorem add_success_witness:
  "window_ethereum (demoEnv [] True) [] \<and>
   contract_addMedicine (demoEnv [] True) (chainArgs (demoEnv [] True) payloadB3) [] =
     (Inr ''0xabc'', [(JStr ''B3'', chainB3)]) \<and>
   contract_getMedicine (demoEnv [] True) (field payloadB3 ''batchNo'') [(JStr ''B3'', chainB3)] =
     (Inr chainB3, [(JStr ''B3'', chainB3)]) \<and>
   addMedicineToFirestore (demoEnv [] True)
     (payloadB3(''txHash'' \<mapsto> JStr ''0xabc'', ''ledgerStatus'' \<mapsto> JStr ''On-Chain'',
                ''onChain'' \<mapsto> JBool True)) [(JStr ''B3'', chainB3)] =
     (Inr (payloadB3(''txHash'' \<mapsto> JStr ''0xabc'', ''ledgerStatus'' \<mapsto> JStr ''On-Chain'',
                     ''onChain'' \<mapsto> JBool True, ''id'' \<mapsto> JStr ''new'')),
      [(JStr ''B3'', chainB3)]) \<and>
   addMedicine (demoEnv [] True) payloadB3 storeB1 [] =
     (Some (payloadB3(''txHash'' \<mapsto> JStr ''0xabc'', ''ledgerStatus'' \<mapsto> JStr ''On-Chain'',
                      ''onChain'' \<mapsto> JBool True, ''id'' \<mapsto> JStr ''new'')),
      storeB1\<lparr>medicines :=
                 payloadB3(''txHash'' \<mapsto> JStr ''0xabc'', ''ledgerStatus'' \<mapsto> JStr ''On-Chain'',
                           ''onChain'' \<mapsto> JBool True, ''id'' \<mapsto> JStr ''new'')
                 # medicines storeB1,
               loading := False\<rparr>,
      [(JStr ''B3'', chainB3)],
      [ContractWrite (chainArgs (demoEnv [] True) payloadB3),
       ContractRead (field payloadB3 ''batchNo'') (Inr chainB3),
       CreateRecord (payloadB3(''txHash'' \<mapsto> JStr ''0xabc'',
                               ''ledgerStatus'' \<mapsto> JStr ''On-Chain'',
                               ''onChain'' \<mapsto> JBool True))])"
proof -
  let ?E = "demoEnv [] True" and ?w1 = "[(JStr ''B3'', chainB3)]"
  let ?doc = "payloadB3(''txHash'' \<mapsto> JStr ''0xabc'', ''ledgerStatus'' \<mapsto> JStr ''On-Chain'',
                        ''onChain'' \<mapsto> JBool True)"
  have wallet: "window_ethereum ?E []"
    by (simp add: demoEnv_def)
  have wr: "contract_addMedicine ?E (chainArgs ?E payloadB3) [] = (Inr ''0xabc'', ?w1)"
    by (simp add: demoEnv_def chainArgs_def payloadB3_def field_def demoEpochSeconds_def
        chainB3_def)
  have rd: "contract_getMedicine ?E (field payloadB3 ''batchNo'') ?w1 = (Inr chainB3, ?w1)"
    by (simp add: demoEnv_def payloadB3_def field_def)
  have ex: "exists chainB3"
    by (simp add: chainB3_def)
  have doc: "?doc = payloadB3(''txHash'' \<mapsto> JStr ''0xabc'',
                       ''ledgerStatus'' \<mapsto>
                          JStr (if \<exists>d. Inr chainB3 = (Inr d :: js_error + chain_data) \<and> exists d
                                then ''On-Chain'' else ''Pending Confirmation''),
                       ''onChain'' \<mapsto>
                          JBool (\<exists>d. Inr chainB3 = (Inr d :: js_error + chain_data) \<and> exists d))"
    using ex by simp
  have create: "addMedicineToFirestore ?E ?doc ?w1 = (Inr (?doc(''id'' \<mapsto> JStr ''new'')), ?w1)"
    by (simp add: demoEnv_def)
  from add_success [OF wallet wr rd doc create, of storeB1] wallet wr rd create
  show ?thesis
    by simp
qed

section \<open>Properties of updateMedicine\<close>

lemma updateMap_list:
  "fst (updateMap i u ms a) = map (\<lambda>m. if hasId i m then m ++ u else m) ms"
  by (induction ms arbitrary: a) (simp_all add: hasId_def split_beta)

lemma updateMap_no_match:
  "\<forall>m\<in>set ms. \<not> hasId i m \<Longrightarrow> updateMap i u ms a = (ms, a)"
  by (induction ms arbitrary: a) (simp_all add: hasId_def)

lemma updateMap_last_match:
  assumes "j < length ms" and "hasId i (ms ! j)"
    and "\<forall>j'. j < j' \<and> j' < length ms \<longrightarrow> \<not> hasId i (ms ! j')"
  shows "snd (updateMap i u ms a) = Some (ms ! j ++ u)"
  using assms
proof (induction ms arbitrary: j a)
  case Nil
  then show ?case by simp
next
  case (Cons m ms)
  show ?case
  proof (cases j)
    case 0
    have "\<forall>x\<in>set ms. \<not> hasId i x"
    proof
      fix x assume "x \<in> set ms"
      then obtain n where "n < length ms" "ms ! n = x"
        by (auto simp: in_set_conv_nth)
      with Cons.prems(3) [rule_format, of "Suc n"] 0 show "\<not> hasId i x"
        by simp
    qed
    from updateMap_no_match [OF this] Cons.prems(2) 0 show ?thesis
      by (simp add: hasId_def)
  next
    case (Suc n)
    have later: "\<forall>j'. n < j' \<and> j' < length ms \<longrightarrow> \<not> hasId i (ms ! j')"
    proof (intro allI impI)
      fix j' assume "n < j' \<and> j' < length ms"
      with Cons.prems(3) [rule_format, of "Suc j'"] Suc show "\<not> hasId i (ms ! j')"
        by simp
    qed
    from Cons.prems(1,2) Suc have "n < length ms" "hasId i (ms ! n)"
      by simp_all
    from Cons.IH [OF this later] Suc show ?thesis
      by (simp add: split_beta)
  qed
qed

text \<open>
  C8. If the update call rejects, \<^verbatim>\<open>updateMedicine\<close> returns \<^verbatim>\<open>null\<close> and the list of the store
  is unchanged. If it answers the fields \<open>u\<close>, the list keeps its length and order; every
  record with the given identifier takes each field of \<open>u\<close> from \<open>u\<close> and keeps every field
  that is not in \<open>u\<close>; every other record is unchanged; and the record returned is the
  updated record with that identifier (the last one, should several have it). In both
  cases \<^verbatim>\<open>loading\<close> is false afterwards.
\<close>

theorem update_shallow_merge:
  assumes "updateMedicine E i payload s w = (r, s', w', tr)"
  shows "loading s' = False \<and>
         (\<forall>err w1. updateMedicineInFirestore E i payload w = (Inl err, w1) \<longrightarrow>
            r = None \<and> medicines s' = medicines s) \<and>
         (\<forall>u w1. updateMedicineInFirestore E i payload w = (Inr u, w1) \<longrightarrow>
            length (medicines s') = length (medicines s) \<and>
            (\<forall>j<length (medicines s).
               (hasId i (medicines s ! j) \<longrightarrow>
                  (\<forall>k. (k \<in> dom u \<longrightarrow> (medicines s' ! j) k = u k) \<and>
                       (k \<notin> dom u \<longrightarrow> (medicines s' ! j) k = (medicines s ! j) k))) \<and>
               (\<not> hasId i (medicines s ! j) \<longrightarrow> medicines s' ! j = medicines s ! j) \<and>
               (hasId i (medicines s ! j) \<and>
                (\<forall>j'. j < j' \<and> j' < length (medicines s) \<longrightarrow> \<not> hasId i (medicines s ! j')) \<longrightarrow>
                  r = Some (medicines s' ! j))))"
proof -
  obtain c w1 where call: "updateMedicineInFirestore E i payload w = (c, w1)"
    by (cases "updateMedicineInFirestore E i payload w")
  show ?thesis
  proof (cases c)
    case (Inl err)
    with assms call show ?thesis
      by (auto simp: updateMedicine_def)
  next
    case (Inr u)
    let ?ms = "medicines s"
    obtain l x where um: "updateMap i u ?ms None = (l, x)"
      by (cases "updateMap i u ?ms None")
    from assms call Inr um have res: "r = x" "medicines s' = l" "loading s' = False"
      by (auto simp: updateMedicine_def)
    from updateMap_list [of i u ?ms None] um
    have l: "l = map (\<lambda>m. if hasId i m then m ++ u else m) ?ms"
      by simp
    have len: "length (medicines s') = length ?ms"
      by (simp add: res(2) l)
    have rec: "(hasId i (?ms ! j) \<longrightarrow>
                  (\<forall>k. (k \<in> dom u \<longrightarrow> (medicines s' ! j) k = u k) \<and>
                       (k \<notin> dom u \<longrightarrow> (medicines s' ! j) k = (?ms ! j) k))) \<and>
               (\<not> hasId i (?ms ! j) \<longrightarrow> medicines s' ! j = ?ms ! j) \<and>
               (hasId i (?ms ! j) \<and>
                (\<forall>j'. j < j' \<and> j' < length ?ms \<longrightarrow> \<not> hasId i (?ms ! j')) \<longrightarrow>
                  r = Some (medicines s' ! j))"
      if j: "j < length ?ms" for j
    proof (intro conjI impI)
      assume "hasId i (?ms ! j)"
      then have "medicines s' ! j = ?ms ! j ++ u"
        using j by (simp add: res(2) l)
      then show "\<forall>k. (k \<in> dom u \<longrightarrow> (medicines s' ! j) k = u k) \<and>
                       (k \<notin> dom u \<longrightarrow> (medicines s' ! j) k = (?ms ! j) k)"
        by (auto simp: map_add_def split: option.splits)
    next
      assume "\<not> hasId i (?ms ! j)"
      then show "medicines s' ! j = ?ms ! j"
        using j by (simp add: res(2) l)
    next
      assume a: "hasId i (?ms ! j) \<and>
                (\<forall>j'. j < j' \<and> j' < length ?ms \<longrightarrow> \<not> hasId i (?ms ! j'))"
      from updateMap_last_match [OF j conjunct1 [OF a] conjunct2 [OF a], of u None] um
      have "x = Some (?ms ! j ++ u)" by simp
      moreover from a j have "medicines s' ! j = ?ms ! j ++ u"
        by (simp add: res(2) l)
      ultimately show "r = Some (medicines s' ! j)"
        by (simp add: res(1))
    qed
    from call Inr len rec res(3) show ?thesis
      by auto
  qed
qed


theorem update_shallow_merge_witness:
  "updateMedicineInFirestore (demoEnv [] True) ''1'' [''price'' \<mapsto> JNum (Fin 12)] [] =
     (Inr [''price'' \<mapsto> JNum (Fin 12)], []) \<and>
   (0::nat) < length (medicines storeB1) \<and>
   hasId ''1'' (medicines storeB1 ! 0) \<and>
   (medicines (fst (snd (updateMedicine (demoEnv [] True) ''1'' [''price'' \<mapsto> JNum (Fin 12)]
                           storeB1 []))) ! 0) ''price'' = Some (JNum (Fin 12)) \<and>
   (medicines (fst (snd (updateMedicine (demoEnv [] True) ''1'' [''price'' \<mapsto> JNum (Fin 12)]
                           storeB1 []))) ! 0) ''quantity'' = Some (JNum (Fin 30)) \<and>
   fst (updateMedicine (demoEnv [] True) ''1'' [''price'' \<mapsto> JNum (Fin 12)] storeB1 []) =
     Some (medicines (fst (snd (updateMedicine (demoEnv [] True) ''1''
                                  [''price'' \<mapsto> JNum (Fin 12)] storeB1 []))) ! 0)"
proof -
  let ?E = "demoEnv [] True" and ?p = "[''price'' \<mapsto> JNum (Fin 12)]"
  let ?run = "updateMedicine ?E ''1'' ?p storeB1 []"
  have h1: "?run = (fst ?run, fst (snd ?run), fst (snd (snd ?run)), snd (snd (snd ?run)))"
    by simp
  have call: "updateMedicineInFirestore ?E ''1'' ?p [] = (Inr ?p, [])"
    by (simp add: demoEnv_def)
  have ms: "medicines storeB1 = [docB1]"
    by (simp add: storeB1_def)
  have j0: "0 < length (medicines storeB1)"
    by (simp add: ms)
  have has: "hasId ''1'' (medicines storeB1 ! 0)"
    by (simp add: ms hasId_def field_def docB1_def)
  have lst: "hasId ''1'' (medicines storeB1 ! 0) \<and>
     (\<forall>j'. 0 < j' \<and> j' < length (medicines storeB1) \<longrightarrow> \<not> hasId ''1'' (medicines storeB1 ! j'))"
    using has by (auto simp: ms)
  note t = update_shallow_merge [OF h1]
  note succ = t [THEN conjunct2, THEN conjunct2, rule_format, OF call]
  note at0 = succ [THEN conjunct2, rule_format, OF j0]
  note fields = at0 [THEN conjunct1, rule_format, OF has]
  note ret = at0 [THEN conjunct2, THEN conjunct2, rule_format, OF lst]
  from fields [of "''price''"] have price:
    "(medicines (fst (snd ?run)) ! 0) ''price'' = Some (JNum (Fin 12))"
    by simp
  from fields [of "''quantity''"] have quantity:
    "(medicines (fst (snd ?run)) ! 0) ''quantity'' = Some (JNum (Fin 30))"
    by (simp add: ms docB1_def)
  from call j0 has price quantity ret show ?thesis
    by blast
qed

section \<open>Properties of approveMedicine\<close>

lemma approveMap_no_match:
  "\<forall>m\<in>set ms. \<not> hasId i m \<Longrightarrow> approveMap E i ms a w = (Inr (ms, a), w)"
  by (induction ms arbitrary: a) (simp_all add: hasId_def)

lemma approveMap_only_match:
  assumes "\<forall>x\<in>set pre. \<not> hasId i x" and "\<forall>x\<in>set post. \<not> hasId i x"
    and "hasId i m"
    and "spreadHistory (field m ''history'') = Inr h"
    and "toISOString_now E w = (t, w2)"
  shows "approveMap E i (pre @ m # post) a w =
           (Inr (pre @ approvedAt m h [t] # post, Some (approvedAt m h [t])), w2)"
  using assms(1)
proof (induction pre arbitrary: a)
  case Nil
  from assms(3,4,5) show ?case
    unfolding approvedAt_def
    by (auto simp: hasId_def Let_def approveMap_no_match [OF assms(2)] fun_eq_iff)
next
  case (Cons x pre)
  then have "\<not> hasId i x" and "\<forall>x\<in>set pre. \<not> hasId i x"
    by simp_all
  with Cons.IH [of a] show ?case
    by (simp add: hasId_def)
qed

lemma approveMedicine_only_match:
  assumes "medicines s = pre @ m # post"
    and "hasId i m"
    and "\<forall>x\<in>set pre \<union> set post. \<not> hasId i x"
    and "spreadHistory (field m ''history'') = Inr h"
    and "updateMedicineInFirestore E i [''listingStatus'' \<mapsto> JStr ''Approved''] w = (Inr u, w1)"
    and "toISOString_now E w1 = (t, w2)"
  shows "approveMedicine E i s w =
           (Some (approvedAt m h [t]),
            s\<lparr>medicines := pre @ approvedAt m h [t] # post, loading := False\<rparr>,
            w2,
            [UpdateRecord i [''listingStatus'' \<mapsto> JStr ''Approved'']])"
proof -
  from assms(3) have pre: "\<forall>x\<in>set pre. \<not> hasId i x" and post: "\<forall>x\<in>set post. \<not> hasId i x"
    by simp_all
  note am = approveMap_only_match [OF pre post assms(2,4,6), of None]
  show ?thesis
    by (simp add: approveMedicine_def Let_def assms(1,5) am)
qed

lemma hasId_approvedAt: "hasId i (approvedAt m h ts) = hasId i m"
  by (simp add: hasId_def approvedAt_def field_def)

lemma history_approvedAt:
  "spreadHistory (field (approvedAt m h ts) ''history'') = Inr (h @ map approvedEntry ts)"
  by (simp add: approvedAt_def field_def)

lemma approvedAt_twice:
  "approvedAt (approvedAt m h [t1]) (h @ [approvedEntry t1]) [t2] = approvedAt m h [t1, t2]"
  by (simp add: approvedAt_def)

text \<open>
  C7, amended. Let \<open>m\<close> be the one record of the store with the given identifier, with
  the history \<open>h\<close> (none, if it has none); let the update call answer, and let \<open>t\<close> be what the
  clock reads after that call. Then \<^verbatim>\<open>approveMedicine\<close> returns \<open>m\<close> with \<^verbatim>\<open>listingStatus\<close>
  \<^verbatim>\<open>Approved\<close> and with the history \<open>h\<close> followed by the one entry \<^verbatim>\<open>{action: "APPROVED",
  timestamp: t, changes: "Approved by Admin"}\<close>; the store holds this record in the place
  of \<open>m\<close>, every other record being as it was, and \<^verbatim>\<open>loading\<close> is false. A second approval
  whose update call answers, the clock then reading \<open>t'\<close>, returns and stores \<open>m\<close> with the
  history \<open>h\<close> followed by two such entries, of \<open>t\<close> and of \<open>t'\<close>.
\<close>

theorem approve_appends_entry:
  assumes "medicines s = pre @ m # post"
    and "hasId i m"
    and "\<forall>x\<in>set pre \<union> set post. \<not> hasId i x"
    and "field m ''history'' = JArr h \<or>
         (field m ''history'' = Undefined \<or> field m ''history'' = Null) \<and> h = []"
    and "updateMedicineInFirestore E i [''listingStatus'' \<mapsto> JStr ''Approved''] w = (Inr u, w1)"
    and "toISOString_now E w1 = (t, w2)"
    and "m1 = m(''listingStatus'' \<mapsto> JStr ''Approved'',
                 ''history'' \<mapsto>
                    JArr (h @ [JObj [(''action'', JStr ''APPROVED''),
                                     (''timestamp'', JStr t),
                                     (''changes'', JStr ''Approved by Admin'')]]))"
  shows "approveMedicine E i s w =
           (Some m1,
            s\<lparr>medicines := pre @ m1 # post, loading := False\<rparr>,
            w2,
            [UpdateRecord i [''listingStatus'' \<mapsto> JStr ''Approved'']]) \<and>
         (\<forall>u' w3 t' w4.
            updateMedicineInFirestore E i [''listingStatus'' \<mapsto> JStr ''Approved''] w2 =
              (Inr u', w3) \<and>
            toISOString_now E w3 = (t', w4) \<longrightarrow>
            approveMedicine E i (s\<lparr>medicines := pre @ m1 # post, loading := False\<rparr>) w2 =
              (Some (m(''listingStatus'' \<mapsto> JStr ''Approved'',
                       ''history'' \<mapsto>
                          JArr (h @ [JObj [(''action'', JStr ''APPROVED''),
                                           (''timestamp'', JStr t),
                                           (''changes'', JStr ''Approved by Admin'')],
                                     JObj [(''action'', JStr ''APPROVED''),
                                           (''timestamp'', JStr t'),
                                           (''changes'', JStr ''Approved by Admin'')]]))),
               s\<lparr>medicines :=
                    pre @ m(''listingStatus'' \<mapsto> JStr ''Approved'',
                            ''history'' \<mapsto>
                               JArr (h @ [JObj [(''action'', JStr ''APPROVED''),
                                                (''timestamp'', JStr t),
                                                (''changes'', JStr ''Approved by Admin'')],
                                          JObj [(''action'', JStr ''APPROVED''),
                                                (''timestamp'', JStr t'),
                                                (''changes'', JStr ''Approved by Admin'')]]))
                        # post,
                  loading := False\<rparr>,
               w4,
               [UpdateRecord i [''listingStatus'' \<mapsto> JStr ''Approved'']]))"
proof -
  from assms(4) have hist: "spreadHistory (field m ''history'') = Inr h"
    by auto
  have m1: "m1 = approvedAt m h [t]"
    by (simp add: assms(7) approvedAt_def approvedEntry_def)
  note first = approveMedicine_only_match [OF assms(1,2,3) hist assms(5,6)]
  have second: "approveMedicine E i (s\<lparr>medicines := pre @ m1 # post, loading := False\<rparr>) w2 =
      (Some (approvedAt m h [t, t']),
       s\<lparr>medicines := pre @ approvedAt m h [t, t'] # post, loading := False\<rparr>,
       w4,
       [UpdateRecord i [''listingStatus'' \<mapsto> JStr ''Approved'']])"
    if call: "updateMedicineInFirestore E i [''listingStatus'' \<mapsto> JStr ''Approved''] w2 =
                (Inr u', w3)"
      and clock: "toISOString_now E w3 = (t', w4)"
    for u' w3 t' w4
  proof -
    let ?s1 = "s\<lparr>medicines := pre @ m1 # post, loading := False\<rparr>"
    have ms: "medicines ?s1 = pre @ approvedAt m h [t] # post"
      by (simp add: m1)
    have has: "hasId i (approvedAt m h [t])"
      by (simp add: hasId_approvedAt assms(2))
    from approveMedicine_only_match [OF ms has assms(3) history_approvedAt call clock]
    show ?thesis
      by (simp add: approvedAt_twice)
  qed
  from first second show ?thesis
    by (simp add: m1 approvedAt_def approvedEntry_def)
qed

lemma approve_demo_step:
  assumes "medicines s = [m]" and "hasId ''1'' m"
    and "spreadHistory (field m ''history'') = Inr h"
  shows "fst (approveMedicine (demoEnv [] True) ''1'' s []) =
           Some (approvedAt m h [''2024-01-01T00:00:00.000Z'']) \<and>
         medicines (fst (snd (approveMedicine (demoEnv [] True) ''1'' s []))) =
           [approvedAt m h [''2024-01-01T00:00:00.000Z'']] \<and>
         fst (snd (snd (approveMedicine (demoEnv [] True) ''1'' s []))) = []"
  using assms
  by (simp add: approveMedicine_def demoEnv_def hasId_def approvedAt_def Let_def)

lemma approve_demo_once:
  "fst (approveMedicine (demoEnv [] True) ''1'' storeB1 []) =
     Some (approvedAt docB1 [] [''2024-01-01T00:00:00.000Z'']) \<and>
   medicines (fst (snd (approveMedicine (demoEnv [] True) ''1'' storeB1 []))) =
     [approvedAt docB1 [] [''2024-01-01T00:00:00.000Z'']] \<and>
   fst (snd (snd (approveMedicine (demoEnv [] True) ''1'' storeB1 []))) = []"
proof (rule approve_demo_step)
  show "medicines storeB1 = [docB1]"
    by (simp add: storeB1_def)
  show "hasId ''1'' docB1"
    by (simp add: hasId_def field_def docB1_def)
  show "spreadHistory (field docB1 ''history'') = Inr []"
    by (simp add: field_def docB1_def)
qed

text \<open>
  C7 as stated fails on the name of a property: the entry that is appended has the
  text under \<^verbatim>\<open>changes\<close>, and it is not the entry with \<^verbatim>\<open>description\<close> of the claim.
\<close>

theorem approve_entry_counterexample:
  "field (medicines (fst (snd (approveMedicine (demoEnv [] True) ''1'' storeB1 []))) ! 0)
     ''history'' =
     JArr [JObj [(''action'', JStr ''APPROVED''),
                 (''timestamp'', JStr ''2024-01-01T00:00:00.000Z''),
                 (''changes'', JStr ''Approved by Admin'')]] \<and>
   field (medicines (fst (snd (approveMedicine (demoEnv [] True) ''1'' storeB1 []))) ! 0)
     ''history'' \<noteq>
     JArr [JObj [(''action'', JStr ''APPROVED''),
                 (''timestamp'', JStr ''2024-01-01T00:00:00.000Z''),
                 (''description'', JStr ''Approved by Admin'')]]"
  by (simp add: approve_demo_once approvedAt_def approvedEntry_def field_def)

theorem approve_appends_entry_witness:
  "medicines storeB1 = [docB1] \<and> hasId ''1'' docB1 \<and> field docB1 ''history'' = Undefined \<and>
   updateMedicineInFirestore (demoEnv [] True) ''1'' [''listingStatus'' \<mapsto> JStr ''Approved''] [] =
     (Inr [''listingStatus'' \<mapsto> JStr ''Approved''], []) \<and>
   toISOString_now (demoEnv [] True) [] = (''2024-01-01T00:00:00.000Z'', []) \<and>
   approveMedicine (demoEnv [] True) ''1'' storeB1 [] =
     (Some (docB1(''listingStatus'' \<mapsto> JStr ''Approved'',
                  ''history'' \<mapsto>
                     JArr [JObj [(''action'', JStr ''APPROVED''),
                                 (''timestamp'', JStr ''2024-01-01T00:00:00.000Z''),
                                 (''changes'', JStr ''Approved by Admin'')]])),
      storeB1\<lparr>medicines :=
                 [docB1(''listingStatus'' \<mapsto> JStr ''Approved'',
                        ''history'' \<mapsto>
                           JArr [JObj [(''action'', JStr ''APPROVED''),
                                       (''timestamp'', JStr ''2024-01-01T00:00:00.000Z''),
                                       (''changes'', JStr ''Approved by Admin'')]])],
               loading := False\<rparr>,
      [],
      [UpdateRecord ''1'' [''listingStatus'' \<mapsto> JStr ''Approved'']]) \<and>
   fst (approveMedicine (demoEnv [] True) ''1''
          (storeB1\<lparr>medicines :=
                 [docB1(''listingStatus'' \<mapsto> JStr ''Approved'',
                        ''history'' \<mapsto>
                           JArr [JObj [(''action'', JStr ''APPROVED''),
                                       (''timestamp'', JStr ''2024-01-01T00:00:00.000Z''),
                                       (''changes'', JStr ''Approved by Admin'')]])],
               loading := False\<rparr>) []) =
     Some (docB1(''listingStatus'' \<mapsto> JStr ''Approved'',
                 ''history'' \<mapsto>
                    JArr [JObj [(''action'', JStr ''APPROVED''),
                                (''timestamp'', JStr ''2024-01-01T00:00:00.000Z''),
                                (''changes'', JStr ''Approved by Admin'')],
                          JObj [(''action'', JStr ''APPROVED''),
                                (''timestamp'', JStr ''2024-01-01T00:00:00.000Z''),
                                (''changes'', JStr ''Approved by Admin'')]]))"
proof -
  let ?E = "demoEnv [] True" and ?t = "''2024-01-01T00:00:00.000Z''"
  let ?patch = "[''listingStatus'' \<mapsto> JStr ''Approved'']"
  let ?m1 = "docB1(''listingStatus'' \<mapsto> JStr ''Approved'',
                   ''history'' \<mapsto>
                      JArr ([] @ [JObj [(''action'', JStr ''APPROVED''),
                                       (''timestamp'', JStr ?t),
                                       (''changes'', JStr ''Approved by Admin'')]]))"
  have ms: "medicines storeB1 = [] @ docB1 # []"
    by (simp add: storeB1_def)
  have has: "hasId ''1'' docB1"
    by (simp add: hasId_def field_def docB1_def)
  have others: "\<forall>x\<in>set [] \<union> set []. \<not> hasId ''1'' x"
    by simp
  have undef: "field docB1 ''history'' = Undefined"
    by (simp add: field_def docB1_def)
  then have hist: "field docB1 ''history'' = JArr [] \<or>
         (field docB1 ''history'' = Undefined \<or> field docB1 ''history'' = Null) \<and> [] = []"
    by simp
  have call: "updateMedicineInFirestore ?E ''1'' ?patch [] = (Inr ?patch, [])"
    by (simp add: demoEnv_def)
  have clock: "toISOString_now ?E [] = (?t, [])"
    by (simp add: demoEnv_def)
  have m1: "?m1 = ?m1"
    by (rule refl)
  note t = approve_appends_entry [OF ms has others hist call clock m1]
  note once = t [THEN conjunct1]
  note twice = t [THEN conjunct2, rule_format, OF conjI [OF call clock]]
  from once twice ms has undef call clock show ?thesis
    by simp
qed

section \<open>Records that are not in the store\<close>

text \<open>
  C10. If no record of the store has the given identifier and the update call goes
  through, \<^verbatim>\<open>updateMedicine\<close> and \<^verbatim>\<open>approveMedicine\<close> have made that call, leave the store as
  it was (with \<^verbatim>\<open>loading\<close> false) and return \<^verbatim>\<open>null\<close>: the very result, on the store and
  for the caller, of a call that rejected.
\<close>

theorem no_match_returns_null:
  assumes "\<forall>m\<in>set (medicines s). \<not> hasId i m"
  shows "(\<forall>c w1. updateMedicineInFirestore E i payload w = (c, w1) \<longrightarrow>
            updateMedicine E i payload s w =
              (None, s\<lparr>loading := False\<rparr>, w1, [UpdateRecord i payload])) \<and>
         (\<forall>c w1. updateMedicineInFirestore E i [''listingStatus'' \<mapsto> JStr ''Approved''] w =
                   (c, w1) \<longrightarrow>
            approveMedicine E i s w =
              (None, s\<lparr>loading := False\<rparr>, w1,
               [UpdateRecord i [''listingStatus'' \<mapsto> JStr ''Approved'']]))"
proof (intro conjI allI impI)
  fix c w1
  assume "updateMedicineInFirestore E i payload w = (c, w1)"
  then show "updateMedicine E i payload s w =
              (None, s\<lparr>loading := False\<rparr>, w1, [UpdateRecord i payload])"
    by (cases c) (simp_all add: updateMedicine_def updateMap_no_match [OF assms] Let_def)
next
  fix c w1
  assume "updateMedicineInFirestore E i [''listingStatus'' \<mapsto> JStr ''Approved''] w = (c, w1)"
  then show "approveMedicine E i s w =
              (None, s\<lparr>loading := False\<rparr>, w1,
               [UpdateRecord i [''listingStatus'' \<mapsto> JStr ''Approved'']])"
    by (cases c) (simp_all add: approveMedicine_def approveMap_no_match [OF assms] Let_def)
qed

theorem no_match_returns_null_witness:
  "medicines storeB1 = [docB1] \<and> \<not> hasId ''2'' docB1 \<and>
   updateMedicineInFirestore (demoEnv [] True) ''2'' [''price'' \<mapsto> JNum (Fin 12)] [] =
     (Inr [''price'' \<mapsto> JNum (Fin 12)], []) \<and>
   updateMedicine (demoEnv [] True) ''2'' [''price'' \<mapsto> JNum (Fin 12)] storeB1 [] =
     (None, storeB1\<lparr>loading := False\<rparr>, [],
      [UpdateRecord ''2'' [''price'' \<mapsto> JNum (Fin 12)]]) \<and>
   updateMedicineInFirestore (demoEnv [] True) ''2'' [''listingStatus'' \<mapsto> JStr ''Approved''] [] =
     (Inr [''listingStatus'' \<mapsto> JStr ''Approved''], []) \<and>
   approveMedicine (demoEnv [] True) ''2'' storeB1 [] =
     (None, storeB1\<lparr>loading := False\<rparr>, [],
      [UpdateRecord ''2'' [''listingStatus'' \<mapsto> JStr ''Approved'']])"
proof -
  let ?E = "demoEnv [] True"
  have h: "\<forall>m\<in>set (medicines storeB1). \<not> hasId ''2'' m"
    by (simp add: storeB1_def hasId_def field_def docB1_def)
  have c1: "updateMedicineInFirestore ?E ''2'' [''price'' \<mapsto> JNum (Fin 12)] [] =
     (Inr [''price'' \<mapsto> JNum (Fin 12)], [])"
    by (simp add: demoEnv_def)
  have c2: "updateMedicineInFirestore ?E ''2'' [''listingStatus'' \<mapsto> JStr ''Approved''] [] =
     (Inr [''listingStatus'' \<mapsto> JStr ''Approved''], [])"
    by (simp add: demoEnv_def)
  note t = no_match_returns_null [OF h, of ?E "[''price'' \<mapsto> JNum (Fin 12)]" "[]"]
  have ms: "medicines storeB1 = [docB1] \<and> \<not> hasId ''2'' docB1"
    by (simp add: storeB1_def hasId_def field_def docB1_def)
  from t [THEN conjunct1, rule_format, OF c1] t [THEN conjunct2, rule_format, OF c2] ms c1 c2
  show ?thesis
    by blast
qed

end
